theory Spec2Isabelle
  imports Complex_Main
begin

section \<open>Python values and exceptions\<close>

text \<open>
  The pipeline of \<^verbatim>\<open>main.py\<close> hands the value that \<^verbatim>\<open>json.loads\<close> returns to the
  scene and to the narrator without looking at it, so the model works on arbitrary parsed
  values, not only on well-formed step lists. A Python \<^verbatim>\<open>dict\<close> keeps its keys in
  insertion order and holds each key once: it is an association list that \<open>map_of\<close> reads.
  A float plays no role beyond being a float.
\<close>

datatype pyfloat = Finite rat | PosInf | NegInf | NaN

datatype json =
    JNull
  | JBool bool
  | JInt int
  | JFloat pyfloat
  | JStr string
  | JArr "json list"
  | JObj "(string \<times> json) list"

text \<open>
  An instance of Python's \<^verbatim>\<open>Exception\<close>, the class that the handler of
  \<^verbatim>\<open>create_video\<close> names: its class name and the text \<^verbatim>\<open>str(e)\<close>.
\<close>

datatype exn = Exception (exn_class: string) (exn_str: string)

fun type_name :: "json \<Rightarrow> string" where
  "type_name JNull = ''NoneType''"
| "type_name (JBool _) = ''bool''"
| "type_name (JInt _) = ''int''"
| "type_name (JFloat _) = ''float''"
| "type_name (JStr _) = ''str''"
| "type_name (JArr _) = ''list''"
| "type_name (JObj _) = ''dict''"

definition quoted :: "string \<Rightarrow> string" where
  "quoted s = [CHR 39] @ s @ [CHR 39]"

definition KeyError :: "string \<Rightarrow> exn" where
  "KeyError k = Exception ''KeyError'' (quoted k)"

definition TypeError :: "string \<Rightarrow> exn" where
  "TypeError msg = Exception ''TypeError'' msg"

text \<open>\<^verbatim>\<open>for x in v\<close>: the items of a list, the keys of a dict, the characters of a string.\<close>

fun py_iter :: "json \<Rightarrow> exn + json list" where
  "py_iter (JArr xs) = Inr xs"
| "py_iter (JObj kvs) = Inr (map (\<lambda>kv. JStr (fst kv)) kvs)"
| "py_iter (JStr s) = Inr (map (\<lambda>c. JStr [c]) s)"
| "py_iter v = Inl (TypeError (quoted (type_name v) @ '' object is not iterable''))"

text \<open>\<^verbatim>\<open>v[key]\<close> with a string key.\<close>

fun getitem :: "json \<Rightarrow> string \<Rightarrow> exn + json" where
  "getitem (JObj kvs) k = (case map_of kvs k of None \<Rightarrow> Inl (KeyError k) | Some v \<Rightarrow> Inr v)"
| "getitem (JStr _) k = Inl (TypeError (''string indices must be integers, not '' @ quoted ''str''))"
| "getitem (JArr _) k = Inl (TypeError ''list indices must be integers or slices, not str'')"
| "getitem v k = Inl (TypeError (quoted (type_name v) @ '' object is not subscriptable''))"

subsection \<open>The StepSequence shape\<close>

text \<open>
  A well-formed reply is an array of objects with the three string fields. \<open>json_of_steps\<close>
  is the parsed value of such a reply.
\<close>

record step =
  equation :: string
  explanation :: string
  narration :: string

definition json_of_step :: "step \<Rightarrow> json" where
  "json_of_step st =
     JObj [(''equation'', JStr (equation st)),
           (''explanation'', JStr (explanation st)),
           (''narration'', JStr (narration st))]"

definition json_of_steps :: "step list \<Rightarrow> json" where
  "json_of_steps sts = JArr (map json_of_step sts)"

section \<open>MathScene.construct\<close>

text \<open>
  The scene does not draw: it builds objects and asks the engine to play animations and
  to wait. The model records what is built and asked, in order. \<open>MathTex v y\<close> is
  \<^verbatim>\<open>MathTex(v)\<close> after \<^verbatim>\<open>shift(UP * y)\<close>; \<open>Text v size m d b\<close> is
  \<^verbatim>\<open>Text(v, font_size=size)\<close> after \<^verbatim>\<open>next_to(m, d, buff=b)\<close>; \<open>Arrow m d c\<close>
  is the arrow from \<^verbatim>\<open>m.get_bottom()\<close> to \<^verbatim>\<open>m.get_bottom() + d\<close> in colour \<open>c\<close>.
\<close>

datatype direction = UP | DOWN | LEFT | RIGHT

datatype color = BLUE

datatype mobject =
    MathTex json int
  | Text json nat mobject direction rat
  | Arrow mobject direction color

datatype animation = Write mobject | Create mobject

datatype event = Play animation | Wait int

record scene =
  current_y :: int
  all_equations :: "mobject list list"
  timeline :: "event list"

definition play :: "animation \<Rightarrow> scene \<Rightarrow> scene" where
  "play a s = s\<lparr>timeline := timeline s @ [Play a]\<rparr>"

definition wait :: "int \<Rightarrow> scene \<Rightarrow> scene" where
  "wait d s = s\<lparr>timeline := timeline s @ [Wait d]\<rparr>"

text \<open>
  One pass through the loop body (lines 23 to 50). Both lookups come before the first
  animation, so a step that raises leaves the scene as it was.
\<close>

definition construct_step :: "json \<Rightarrow> scene \<Rightarrow> exn + scene" where
  "construct_step st s =
     (case getitem st ''equation'' of
        Inl e \<Rightarrow> Inl e
      | Inr eq_src \<Rightarrow>
          let eq = MathTex eq_src (current_y s) in
          (case getitem st ''explanation'' of
             Inl e \<Rightarrow> Inl e
           | Inr ex_src \<Rightarrow>
               let expl = Text ex_src 24 eq RIGHT (1 / 2);
                   s1 = play (Write eq) s;
                   s2 = play (Write expl) s1;
                   s3 = s2\<lparr>all_equations := all_equations s2 @ [[eq, expl]]\<rparr>;
                   s4 = s3\<lparr>current_y := current_y s3 - 1\<rparr>;
                   s5 = (if current_y s4 > - 3
                         then let arrow = Arrow eq DOWN BLUE;
                                  s' = play (Create arrow) s4
                              in s'\<lparr>all_equations := all_equations s' @ [[arrow]]\<rparr>
                         else s4)
               in Inr (wait 2 s5)))"

fun construct_loop :: "json list \<Rightarrow> scene \<Rightarrow> scene \<times> exn option" where
  "construct_loop [] s = (s, None)"
| "construct_loop (st # rest) s =
     (case construct_step st s of
        Inl e \<Rightarrow> (s, Some e)
      | Inr s' \<Rightarrow> construct_loop rest s')"

definition scene_init :: scene where
  "scene_init = \<lparr>current_y = 3, all_equations = [], timeline = []\<rparr>"

text \<open>
  The whole of \<^verbatim>\<open>construct\<close>: the scene as the method leaves it, and the exception it
  raised, if any. The final pause is reached only when the loop ends normally.
\<close>

definition construct :: "json \<Rightarrow> scene \<times> exn option" where
  "construct steps =
     (case py_iter steps of
        Inl e \<Rightarrow> (scene_init, Some e)
      | Inr items \<Rightarrow>
          (case construct_loop items scene_init of
             (s, Some e) \<Rightarrow> (s, Some e)
           | (s, None) \<Rightarrow> (wait 2 s, None)))"

subsection \<open>Reading a timeline\<close>

fun played :: "event list \<Rightarrow> mobject list" where
  "played [] = []"
| "played (Play (Write m) # es) = m # played es"
| "played (Play (Create m) # es) = m # played es"
| "played (Wait _ # es) = played es"

fun is_equation :: "mobject \<Rightarrow> bool" where
  "is_equation (MathTex _ _) = True"
| "is_equation _ = False"

fun is_explanation :: "mobject \<Rightarrow> bool" where
  "is_explanation (Text _ _ _ _ _) = True"
| "is_explanation _ = False"

fun is_arrow :: "mobject \<Rightarrow> bool" where
  "is_arrow (Arrow _ _ _) = True"
| "is_arrow _ = False"

fun is_wait :: "event \<Rightarrow> bool" where
  "is_wait (Wait _) = True"
| "is_wait _ = False"

definition equations :: "scene \<Rightarrow> mobject list" where
  "equations s = filter is_equation (played (timeline s))"

definition explanations :: "scene \<Rightarrow> mobject list" where
  "explanations s = filter is_explanation (played (timeline s))"

definition arrows :: "scene \<Rightarrow> mobject list" where
  "arrows s = filter is_arrow (played (timeline s))"

definition pauses :: "scene \<Rightarrow> event list" where
  "pauses s = filter is_wait (timeline s)"

text \<open>
  What the loop plays for the step at position \<open>i\<close> (counted from 0), written out:
  the equation at height \<open>3 - i\<close>, its explanation on the right, an arrow while
  \<open>2 - i > - 3\<close>, and the pause.
\<close>

definition eq_at :: "nat \<Rightarrow> step \<Rightarrow> mobject" where
  "eq_at i st = MathTex (JStr (equation st)) (3 - int i)"

definition expl_at :: "nat \<Rightarrow> step \<Rightarrow> mobject" where
  "expl_at i st = Text (JStr (explanation st)) 24 (eq_at i st) RIGHT (1 / 2)"

definition step_block :: "nat \<Rightarrow> step \<Rightarrow> event list" where
  "step_block i st =
     [Play (Write (eq_at i st)), Play (Write (expl_at i st))]
     @ (if i < 5 then [Play (Create (Arrow (eq_at i st) DOWN BLUE))] else [])
     @ [Wait 2]"

fun blocks_from :: "nat \<Rightarrow> step list \<Rightarrow> event list" where
  "blocks_from i [] = []"
| "blocks_from i (st # sts) = step_block i st @ blocks_from (Suc i) sts"

fun heights_from :: "int \<Rightarrow> nat \<Rightarrow> int list" where
  "heights_from y 0 = []"
| "heights_from y (Suc n) = y # heights_from (y - 1) n"

fun height :: "mobject \<Rightarrow> int" where
  "height (MathTex _ y) = y"
| "height (Text _ _ m _ _) = height m"
| "height (Arrow m _ _) = height m"

section \<open>The world outside the program\<close>

text \<open>
  The program reads the environment, writes to standard output and works on three files
  with fixed names. \<open>files\<close> maps a path to the content of the regular file there;
  directories and permissions are not modelled. \<open>api_key\<close> is the module variable
  \<^verbatim>\<open>openai.api_key\<close>. \<open>calls\<close> records, in order, every call that leaves the program:
  it exists to state which calls a run made.
\<close>

type_synonym path = string
type_synonym bytes = string
type_synonym filesystem = "path \<rightharpoonup> bytes"

datatype call =
    ChatCompletion string "(string \<times> string) list"
  | Render json
  | Generate string string string
  | Save path
  | Run "string list"
  | Remove path
  | Input string

record world =
  environ :: "string \<rightharpoonup> string"
  files :: filesystem
  stdout :: "string list"
  api_key :: "string option"
  calls :: "call list"

text \<open>
  The libraries and tools the program calls are not part of it: each is a parameter, and
  a theorem about every \<open>externals\<close> holds whatever they do. A run calls each at most
  once. \<open>chat_completion key model messages\<close> is the content of each choice of the reply
  (\<open>None\<close> for a choice without text); \<open>render_engine\<close> gets what \<^verbatim>\<open>construct\<close> asked for and
  the exception it raised; \<open>subprocess_run\<close> returns the exit status of the tool, or raises
  when the tool cannot be started.
\<close>

record externals =
  chat_completion :: "string option \<Rightarrow> string \<Rightarrow> (string \<times> string) list \<Rightarrow> exn + string option list"
  json_loads :: "string \<Rightarrow> exn + json"
  render_engine :: "scene \<Rightarrow> exn option \<Rightarrow> filesystem \<Rightarrow> exn option \<times> filesystem"
  tts_generate :: "string \<Rightarrow> string \<Rightarrow> string \<Rightarrow> exn + bytes"
  save_audio :: "bytes \<Rightarrow> path \<Rightarrow> filesystem \<Rightarrow> exn option \<times> filesystem"
  subprocess_run :: "string list \<Rightarrow> filesystem \<Rightarrow> (exn + int) \<times> filesystem"
  read_line :: "exn + string"

definition called :: "call \<Rightarrow> world \<Rightarrow> world" where
  "called c w = w\<lparr>calls := calls w @ [c]\<rparr>"

definition print :: "string \<Rightarrow> world \<Rightarrow> world" where
  "print s w = w\<lparr>stdout := stdout w @ [s @ [CHR 10]]\<rparr>"

definition FileNotFoundError :: "path \<Rightarrow> exn" where
  "FileNotFoundError p =
     Exception ''FileNotFoundError'' (''[Errno 2] No such file or directory: '' @ quoted p)"

text \<open>\<^verbatim>\<open>os.remove(p)\<close>: the file is gone afterwards, and a missing file raises.\<close>

definition os_remove :: "path \<Rightarrow> world \<Rightarrow> exn option \<times> world" where
  "os_remove p w =
     (case files w p of
        None \<Rightarrow> (Some (FileNotFoundError p), called (Remove p) w)
      | Some _ \<Rightarrow> (None, called (Remove p) (w\<lparr>files := (files w)(p := None)\<rparr>)))"

section \<open>MathTutor\<close>

record tutor =
  openai_api_key :: "string option"
  elevenlabs_api_key :: "string option"

text \<open>Python's \<^verbatim>\<open>not v\<close> for what \<^verbatim>\<open>os.getenv\<close> returns: true of \<^verbatim>\<open>None\<close> and of the empty string.\<close>

fun falsy :: "string option \<Rightarrow> bool" where
  "falsy None = True"
| "falsy (Some s) = (s = [])"

definition ValueError :: "string \<Rightarrow> exn" where
  "ValueError msg = Exception ''ValueError'' msg"

definition init :: "world \<Rightarrow> (exn + tutor) \<times> world" where
  "init w =
     (let self = \<lparr>openai_api_key = environ w ''OPENAI_API_KEY'',
                  elevenlabs_api_key = environ w ''ELEVENLABS_API_KEY''\<rparr>
      in if falsy (openai_api_key self) \<or> falsy (elevenlabs_api_key self)
         then (Inl (ValueError ''API keys for OpenAI and ElevenLabs are required''), w)
         else (Inr self, w\<lparr>api_key := openai_api_key self\<rparr>))"

subsection \<open>generate_explanation\<close>

definition indent :: string where
  "indent = ''        ''"

definition prompt_of :: "string \<Rightarrow> string" where
  "prompt_of question =
     [CHR 10] @ indent @ ''Explain this math problem step by step:''
     @ [CHR 10] @ indent @ question
     @ [CHR 10] @ indent
     @ [CHR 10] @ indent @ ''Format your response as a JSON array with each step containing:''
     @ [CHR 10] @ indent @ ''1. equation: The mathematical equation for this step''
     @ [CHR 10] @ indent @ ''2. explanation: A clear explanation of what'' @ [CHR 39] @ ''s happening''
     @ [CHR 10] @ indent @ ''3. narration: Voice-over text for this step''
     @ [CHR 10] @ indent"

definition IndexError :: "string \<Rightarrow> exn" where
  "IndexError msg = Exception ''IndexError'' msg"

text \<open>
  \<^verbatim>\<open>response.choices[0].message.content\<close>, then \<^verbatim>\<open>json.loads\<close> of it. An empty list of
  choices raises at the index; \<^verbatim>\<open>json.loads(None)\<close> raises a type error.
\<close>

definition first_content :: "string option list \<Rightarrow> exn + string option" where
  "first_content choices =
     (case choices of
        [] \<Rightarrow> Inl (IndexError ''list index out of range'')
      | c # _ \<Rightarrow> Inr c)"

definition loads :: "externals \<Rightarrow> string option \<Rightarrow> exn + json" where
  "loads X content =
     (case content of
        None \<Rightarrow> Inl (TypeError ''the JSON object must be str, bytes or bytearray, not NoneType'')
      | Some text \<Rightarrow> json_loads X text)"

definition generate_explanation :: "externals \<Rightarrow> string \<Rightarrow> world \<Rightarrow> (exn + json) \<times> world" where
  "generate_explanation X question w =
     (let prompt = prompt_of question;
          messages = [(''user'', prompt)];
          w1 = called (ChatCompletion ''gpt-4'' messages) w
      in case chat_completion X (api_key w) ''gpt-4'' messages of
           Inl e \<Rightarrow> (Inl e, w1)
         | Inr choices \<Rightarrow>
             (case first_content choices of
                Inl e \<Rightarrow> (Inl e, w1)
              | Inr content \<Rightarrow> (loads X content, w1)))"

subsection \<open>Rendering the scene\<close>

text \<open>
  \<^verbatim>\<open>MathScene(steps).render()\<close>: the engine runs \<^verbatim>\<open>construct\<close>. An exception of
  \<^verbatim>\<open>construct\<close> leaves \<^verbatim>\<open>render\<close> unless the engine raised one of its own; the files
  are what the engine made of them either way.
\<close>

definition render :: "externals \<Rightarrow> json \<Rightarrow> world \<Rightarrow> exn option \<times> world" where
  "render X steps w =
     (case construct steps of
        (sc, err) \<Rightarrow>
          (case render_engine X sc err (files w) of
             (r, fs) \<Rightarrow>
               ((case r of Some e \<Rightarrow> Some e | None \<Rightarrow> err),
                called (Render steps) (w\<lparr>files := fs\<rparr>))))"

subsection \<open>create_narration\<close>

text \<open>The generator \<^verbatim>\<open>step['narration'] for step in steps\<close>, run to its end.\<close>

fun narrations :: "json list \<Rightarrow> exn + json list" where
  "narrations [] = Inr []"
| "narrations (st # rest) =
     (case getitem st ''narration'' of
        Inl e \<Rightarrow> Inl e
      | Inr v \<Rightarrow>
          (case narrations rest of
             Inl e \<Rightarrow> Inl e
           | Inr vs \<Rightarrow> Inr (v # vs)))"

text \<open>
  \<^verbatim>\<open>sep.join(items)\<close>: the items are collected first, each must be a string (the first
  that is not raises, naming its position), and the separator stands between neighbours.
\<close>

definition digit :: "nat \<Rightarrow> char" where
  "digit d = ''0123456789'' ! d"

fun show_nat :: "nat \<Rightarrow> string" where
  "show_nat n = (if n < 10 then [digit n] else show_nat (n div 10) @ [digit (n mod 10)])"

fun str_items :: "nat \<Rightarrow> json list \<Rightarrow> exn + string list" where
  "str_items i [] = Inr []"
| "str_items i (JStr s # vs) =
     (case str_items (Suc i) vs of
        Inl e \<Rightarrow> Inl e
      | Inr ss \<Rightarrow> Inr (s # ss))"
| "str_items i (v # vs) =
     Inl (TypeError (''sequence item '' @ show_nat i @ '': expected str instance, ''
                     @ type_name v @ '' found''))"

fun join_strs :: "string \<Rightarrow> string list \<Rightarrow> string" where
  "join_strs sep [] = []"
| "join_strs sep [s] = s"
| "join_strs sep (s # t # ss) = s @ sep @ join_strs sep (t # ss)"

definition str_join :: "string \<Rightarrow> json list \<Rightarrow> exn + string" where
  "str_join sep vs =
     (case str_items 0 vs of
        Inl e \<Rightarrow> Inl e
      | Inr ss \<Rightarrow> Inr (join_strs sep ss))"

definition full_narration :: "json \<Rightarrow> exn + string" where
  "full_narration steps =
     (case py_iter steps of
        Inl e \<Rightarrow> Inl e
      | Inr items \<Rightarrow>
          (case narrations items of
             Inl e \<Rightarrow> Inl e
           | Inr vs \<Rightarrow> str_join '' '' vs))"

definition create_narration :: "externals \<Rightarrow> json \<Rightarrow> world \<Rightarrow> (exn + path) \<times> world" where
  "create_narration X steps w =
     (case full_narration steps of
        Inl e \<Rightarrow> (Inl e, w)
      | Inr text \<Rightarrow>
          let w1 = called (Generate text ''Bella'' ''eleven_multilingual_v1'') w in
          (case tts_generate X text ''Bella'' ''eleven_multilingual_v1'' of
             Inl e \<Rightarrow> (Inl e, w1)
           | Inr audio \<Rightarrow>
               let audio_path = ''narration.mp3'';
                   w2 = called (Save audio_path) w1
               in (case save_audio X audio audio_path (files w2) of
                     (Some e, fs) \<Rightarrow> (Inl e, w2\<lparr>files := fs\<rparr>)
                   | (None, fs) \<Rightarrow> (Inr audio_path, w2\<lparr>files := fs\<rparr>))))"

subsection \<open>create_video\<close>

definition ffmpeg_args :: "path \<Rightarrow> path \<Rightarrow> path \<Rightarrow> string list" where
  "ffmpeg_args scene_path audio_path output_path =
     [''ffmpeg'', ''-y'', ''-i'', scene_path, ''-i'', audio_path,
      ''-c:v'', ''copy'', ''-c:a'', ''aac'', output_path]"

definition run :: "externals \<Rightarrow> string list \<Rightarrow> world \<Rightarrow> (exn + int) \<times> world" where
  "run X args w =
     (case subprocess_run X args (files w) of
        (r, fs) \<Rightarrow> (r, called (Run args) (w\<lparr>files := fs\<rparr>)))"

text \<open>The body of the \<^verbatim>\<open>try\<close> (lines 104 to 130): each step runs in the world the last one left.\<close>

definition create_video_body :: "externals \<Rightarrow> string \<Rightarrow> world \<Rightarrow> (exn + path) \<times> world" where
  "create_video_body X question w =
     (case generate_explanation X question w of
        (Inl e, w1) \<Rightarrow> (Inl e, w1)
      | (Inr steps, w1) \<Rightarrow>
          let scene_path = ''math_scene.mp4'' in
          (case render X steps w1 of
             (Some e, w2) \<Rightarrow> (Inl e, w2)
           | (None, w2) \<Rightarrow>
               (case create_narration X steps w2 of
                  (Inl e, w3) \<Rightarrow> (Inl e, w3)
                | (Inr audio_path, w3) \<Rightarrow>
                    let output_path = ''final_explanation.mp4'' in
                    (case run X (ffmpeg_args scene_path audio_path output_path) w3 of
                       (Inl e, w4) \<Rightarrow> (Inl e, w4)
                     | (Inr status, w4) \<Rightarrow>
                         (case os_remove scene_path w4 of
                            (Some e, w5) \<Rightarrow> (Inl e, w5)
                          | (None, w5) \<Rightarrow>
                              (case os_remove audio_path w5 of
                                 (Some e, w6) \<Rightarrow> (Inl e, w6)
                               | (None, w6) \<Rightarrow> (Inr output_path, w6)))))))"

text \<open>The handler (lines 132 to 134): print the message, return \<^verbatim>\<open>None\<close>.\<close>

definition create_video :: "externals \<Rightarrow> string \<Rightarrow> world \<Rightarrow> path option \<times> world" where
  "create_video X question w =
     (case create_video_body X question w of
        (Inr p, w') \<Rightarrow> (Some p, w')
      | (Inl e, w') \<Rightarrow> (None, print (''Error creating video: '' @ exn_str e) w'))"

subsection \<open>main\<close>

text \<open>
  \<^verbatim>\<open>input(prompt)\<close> writes the prompt without a newline and reads a line. An exception
  that leaves \<open>main\<close> ends the process. \<^verbatim>\<open>if video_path\<close> is false of \<^verbatim>\<open>None\<close> and of
  the empty string.
\<close>

definition input :: "externals \<Rightarrow> string \<Rightarrow> world \<Rightarrow> (exn + string) \<times> world" where
  "input X prompt w =
     (read_line X, called (Input prompt) (w\<lparr>stdout := stdout w @ [prompt]\<rparr>))"

text \<open>Lines 145 to 148: what \<open>main\<close> prints for the value \<open>create_video\<close> returned.\<close>

definition report :: "path option \<Rightarrow> world \<Rightarrow> world" where
  "report video_path w =
     (case video_path of
        None \<Rightarrow> print ''Failed to create explanation video'' w
      | Some p \<Rightarrow>
          if p = []
          then print ''Failed to create explanation video'' w
          else print (''Explanation video created: '' @ p) w)"

definition main :: "externals \<Rightarrow> world \<Rightarrow> exn option \<times> world" where
  "main X w =
     (case init w of
        (Inl e, w1) \<Rightarrow> (Some e, w1)
      | (Inr self, w1) \<Rightarrow>
          (case input X ''Enter your math question: '' w1 of
             (Inl e, w2) \<Rightarrow> (Some e, w2)
           | (Inr question, w2) \<Rightarrow>
               let w3 = print ''Generating video explanation...'' w2 in
               (case create_video X question w3 of
                  (video_path, w4) \<Rightarrow> (None, report video_path w4))))"

section \<open>The specification's wording of the narration text\<close>

text \<open>
  "The narration fields joined with single spaces in original order": the first narration,
  then each later one behind one space. This follows the specification's sentence, to be
  compared with what \<open>full_narration\<close> computes.
\<close>

definition joined_with_spaces :: "string list \<Rightarrow> string" where
  "joined_with_spaces ss =
     (case ss of
        [] \<Rightarrow> []
      | s # rest \<Rightarrow> s @ concat (map (\<lambda>t. CHR '' '' # t) rest))"

section \<open>Scripted externals for sample runs\<close>

text \<open>
  Externals that answer as told, to run the pipeline on concrete inputs: the reply of the
  language model, the value the parser makes of it, the exception of the engine (which
  otherwise writes the silent video), the audio of the speech service, and what the mux
  tool does: raise, or return a status, writing the output only with status 0.
\<close>

definition scripted ::
  "(exn + string option list) \<Rightarrow> (exn + json) \<Rightarrow> exn option \<Rightarrow> (exn + bytes) \<Rightarrow> (exn + int) \<Rightarrow> externals" where
  "scripted reply parsed engine audio mux =
     \<lparr>chat_completion = (\<lambda>key model messages. reply),
      json_loads = (\<lambda>text. parsed),
      render_engine = (\<lambda>sc err fs.
         (engine, if engine = None \<and> err = None then fs(''math_scene.mp4'' \<mapsto> ''video'') else fs)),
      tts_generate = (\<lambda>text voice model. audio),
      save_audio = (\<lambda>a p fs. (None, fs(p \<mapsto> a))),
      subprocess_run = (\<lambda>args fs.
         (mux, if mux = Inr 0 then fs(last args \<mapsto> ''muxed'') else fs)),
      read_line = Inr ''Solve x+1=2''\<rparr>"

definition scenario :: "step list" where
  "scenario = [\<lparr>equation = ''x+1=2'', explanation = ''subtract 1'',
                narration = ''We subtract one from both sides.''\<rparr>]"

definition world0 :: world where
  "world0 = \<lparr>environ = [''OPENAI_API_KEY'' \<mapsto> ''sk-1'', ''ELEVENLABS_API_KEY'' \<mapsto> ''el-1''],
             files = Map.empty, stdout = [], api_key = Some ''sk-1'', calls = []\<rparr>"

section \<open>Properties of the scene\<close>

lemma construct_step_wellformed:
  "construct_step (json_of_step st) s =
     Inr (s\<lparr>current_y := current_y s - 1,
            all_equations := all_equations s
               @ [[MathTex (JStr (equation st)) (current_y s),
                   Text (JStr (explanation st)) 24 (MathTex (JStr (equation st)) (current_y s)) RIGHT (1 / 2)]]
               @ (if current_y s - 1 > - 3
                  then [[Arrow (MathTex (JStr (equation st)) (current_y s)) DOWN BLUE]] else []),
            timeline := timeline s
               @ [Play (Write (MathTex (JStr (equation st)) (current_y s))),
                  Play (Write (Text (JStr (explanation st)) 24
                                 (MathTex (JStr (equation st)) (current_y s)) RIGHT (1 / 2)))]
               @ (if current_y s - 1 > - 3
                  then [Play (Create (Arrow (MathTex (JStr (equation st)) (current_y s)) DOWN BLUE))]
                  else [])
               @ [Wait 2]\<rparr>)"
  by (simp add: construct_step_def json_of_step_def play_def wait_def Let_def)

lemma played_append: "played (xs @ ys) = played xs @ played ys"
  by (induction xs rule: played.induct) simp_all

lemma construct_loop_wellformed:
  "current_y s = 3 - int i \<Longrightarrow>
   construct_loop (map json_of_step sts) s =
     (fst (construct_loop (map json_of_step sts) s), None)
   \<and> timeline (fst (construct_loop (map json_of_step sts) s)) = timeline s @ blocks_from i sts
   \<and> current_y (fst (construct_loop (map json_of_step sts) s)) = current_y s - int (length sts)"
proof (induction sts arbitrary: s i)
  case Nil
  then show ?case by simp
next
  case (Cons st sts)
  let ?s' = "s\<lparr>current_y := current_y s - 1,
            all_equations := all_equations s
               @ [[MathTex (JStr (equation st)) (current_y s),
                   Text (JStr (explanation st)) 24 (MathTex (JStr (equation st)) (current_y s)) RIGHT (1 / 2)]]
               @ (if current_y s - 1 > - 3
                  then [[Arrow (MathTex (JStr (equation st)) (current_y s)) DOWN BLUE]] else []),
            timeline := timeline s
               @ [Play (Write (MathTex (JStr (equation st)) (current_y s))),
                  Play (Write (Text (JStr (explanation st)) 24
                                 (MathTex (JStr (equation st)) (current_y s)) RIGHT (1 / 2)))]
               @ (if current_y s - 1 > - 3
                  then [Play (Create (Arrow (MathTex (JStr (equation st)) (current_y s)) DOWN BLUE))]
                  else [])
               @ [Wait 2]\<rparr>"
  have step: "construct_step (json_of_step st) s = Inr ?s'"
    by (rule construct_step_wellformed)
  have y: "current_y ?s' = 3 - int (Suc i)"
    using Cons.prems by simp
  have arrow: "(current_y s - 1 > - 3) = (i < 5)"
    using Cons.prems by auto
  have tl: "timeline ?s' = timeline s @ step_block i st"
    using Cons.prems arrow by (simp add: step_block_def eq_at_def expl_at_def)
  from Cons.IH [OF y] step tl show ?case
    by simp
qed

lemma construct_wellformed:
  "snd (construct (json_of_steps sts)) = None"
  "timeline (fst (construct (json_of_steps sts))) = blocks_from 0 sts @ [Wait 2]"
  "current_y (fst (construct (json_of_steps sts))) = 3 - int (length sts)"
proof -
  have y0: "current_y scene_init = 3 - int 0" by (simp add: scene_init_def)
  note L = construct_loop_wellformed [OF y0, of sts]
  obtain s' where s': "construct_loop (map json_of_step sts) scene_init = (s', None)"
    using L by blast
  from L s' show "snd (construct (json_of_steps sts)) = None"
    by (simp add: construct_def json_of_steps_def)
  from L s' show "timeline (fst (construct (json_of_steps sts))) = blocks_from 0 sts @ [Wait 2]"
    by (simp add: construct_def json_of_steps_def wait_def scene_init_def)
  from L s' show "current_y (fst (construct (json_of_steps sts))) = 3 - int (length sts)"
    by (simp add: construct_def json_of_steps_def wait_def scene_init_def)
qed

lemma equations_blocks:
  "filter is_equation (played (blocks_from i sts)) = map (\<lambda>(k, st). eq_at k st) (enumerate i sts)"
  by (induction sts arbitrary: i) (simp_all add: step_block_def played_append eq_at_def expl_at_def)

lemma explanations_blocks:
  "filter is_explanation (played (blocks_from i sts)) = map (\<lambda>(k, st). expl_at k st) (enumerate i sts)"
  by (induction sts arbitrary: i) (simp_all add: step_block_def played_append eq_at_def expl_at_def)

lemma arrows_blocks:
  "length (filter is_arrow (played (blocks_from i sts))) = min (i + length sts) 5 - min i 5"
  by (induction sts arbitrary: i) (auto simp: step_block_def played_append eq_at_def expl_at_def)

lemma pauses_blocks:
  "filter is_wait (blocks_from i sts) = replicate (length sts) (Wait 2)"
  by (induction sts arbitrary: i) (simp_all add: step_block_def)

lemma heights_blocks:
  "map height (map (\<lambda>(k, st). eq_at k st) (enumerate i sts)) = heights_from (3 - int i) (length sts)"
  by (induction sts arbitrary: i) (simp_all add: eq_at_def)

lemma blocks_narration:
  "blocks_from i (map (narration_update f) sts) = blocks_from i sts"
  by (induction sts arbitrary: i) (simp_all add: step_block_def eq_at_def expl_at_def)


lemma scene_element_counts:
  "length (equations (fst (construct (json_of_steps sts)))) = length sts"
  "length (explanations (fst (construct (json_of_steps sts)))) = length sts"
  "length (arrows (fst (construct (json_of_steps sts)))) = min (length sts) 5"
  by (simp_all add: equations_def explanations_def arrows_def construct_wellformed
        played_append equations_blocks explanations_blocks arrows_blocks)

text \<open>
  C1. The claim: a scene of N steps has N equations, N explanations and N - 1 arrows, so a
  single step has no arrow. The code draws the arrow while the next height is above - 3,
  whatever the number of steps (\<open>scene_element_counts\<close>: \<open>min N 5\<close> arrows): on the
  single step of the specification's scenario it plays one equation, one explanation and
  one arrow.
\<close>

theorem single_step_scene_draws_arrow:
  "length (equations (fst (construct (json_of_steps
      [\<lparr>equation = ''x+1=2'', explanation = ''subtract 1'',
        narration = ''We subtract one from both sides.''\<rparr>])))) = 1
   \<and> length (explanations (fst (construct (json_of_steps
      [\<lparr>equation = ''x+1=2'', explanation = ''subtract 1'',
        narration = ''We subtract one from both sides.''\<rparr>])))) = 1
   \<and> arrows (fst (construct (json_of_steps
      [\<lparr>equation = ''x+1=2'', explanation = ''subtract 1'',
        narration = ''We subtract one from both sides.''\<rparr>])))
     = [Arrow (MathTex (JStr ''x+1=2'') 3) DOWN BLUE]"
  by (simp add: construct_def json_of_steps_def json_of_step_def construct_step_def
        scene_init_def play_def wait_def equations_def explanations_def arrows_def Let_def)

text \<open>
  C8. For every step list: the equation of step \<open>i\<close> (from 0) stands at height \<open>3 - i\<close>,
  so each one unit below the one before, starting at 3; the explanation of a step is placed
  to the right of its equation; the timeline is the steps' blocks, each ending in a pause
  of 2, and a last pause of 2; no pause has another length; and replacing the narrations
  changes nothing in the scene.
\<close>

theorem scene_layout:
  "snd (construct (json_of_steps sts)) = None
   \<and> timeline (fst (construct (json_of_steps sts))) = blocks_from 0 sts @ [Wait 2]
   \<and> equations (fst (construct (json_of_steps sts))) = map (\<lambda>(i, st). eq_at i st) (enumerate 0 sts)
   \<and> map height (equations (fst (construct (json_of_steps sts)))) = heights_from 3 (length sts)
   \<and> explanations (fst (construct (json_of_steps sts))) = map (\<lambda>(i, st). expl_at i st) (enumerate 0 sts)
   \<and> pauses (fst (construct (json_of_steps sts))) = replicate (Suc (length sts)) (Wait 2)
   \<and> timeline (fst (construct (json_of_steps (map (narration_update f) sts))))
       = timeline (fst (construct (json_of_steps sts)))"
proof -
  have tl: "timeline (fst (construct (json_of_steps sts))) = blocks_from 0 sts @ [Wait 2]"
    by (rule construct_wellformed)
  have eqs: "equations (fst (construct (json_of_steps sts)))
             = map (\<lambda>(i, st). eq_at i st) (enumerate 0 sts)"
    by (simp add: equations_def tl played_append equations_blocks)
  have hs: "map height (equations (fst (construct (json_of_steps sts)))) = heights_from 3 (length sts)"
    using heights_blocks [of 0 sts] by (simp add: eqs)
  have exs: "explanations (fst (construct (json_of_steps sts)))
             = map (\<lambda>(i, st). expl_at i st) (enumerate 0 sts)"
    by (simp add: explanations_def tl played_append explanations_blocks)
  have ps: "pauses (fst (construct (json_of_steps sts))) = replicate (Suc (length sts)) (Wait 2)"
    by (simp add: pauses_def tl pauses_blocks replicate_append_same)
  have nar: "timeline (fst (construct (json_of_steps (map (narration_update f) sts))))
       = timeline (fst (construct (json_of_steps sts)))"
    by (simp add: construct_wellformed blocks_narration)
  from construct_wellformed(1) tl eqs hs exs ps nar show ?thesis
    by blast
qed

theorem scene_layout_witness:
  "equations (fst (construct (json_of_steps
      [\<lparr>equation = ''x+1=2'', explanation = ''subtract 1'', narration = ''a''\<rparr>,
       \<lparr>equation = ''x=1'', explanation = ''done'', narration = ''b''\<rparr>])))
     = [MathTex (JStr ''x+1=2'') 3, MathTex (JStr ''x=1'') 2]
   \<and> explanations (fst (construct (json_of_steps
      [\<lparr>equation = ''x+1=2'', explanation = ''subtract 1'', narration = ''a''\<rparr>,
       \<lparr>equation = ''x=1'', explanation = ''done'', narration = ''b''\<rparr>])))
     = [Text (JStr ''subtract 1'') 24 (MathTex (JStr ''x+1=2'') 3) RIGHT (1 / 2),
        Text (JStr ''done'') 24 (MathTex (JStr ''x=1'') 2) RIGHT (1 / 2)]
   \<and> pauses (fst (construct (json_of_steps
      [\<lparr>equation = ''x+1=2'', explanation = ''subtract 1'', narration = ''a''\<rparr>,
       \<lparr>equation = ''x=1'', explanation = ''done'', narration = ''b''\<rparr>])))
     = [Wait 2, Wait 2, Wait 2]"
  using scene_layout [of "[\<lparr>equation = ''x+1=2'', explanation = ''subtract 1'', narration = ''a''\<rparr>,
       \<lparr>equation = ''x=1'', explanation = ''done'', narration = ''b''\<rparr>]"]
  by (simp add: eq_at_def expl_at_def enumerate_eq_zip numeral_2_eq_2 upt_rec)

section \<open>Properties of the narration\<close>

lemma narrations_wellformed:
  "narrations (map json_of_step sts) = Inr (map (\<lambda>st. JStr (narration st)) sts)"
  by (induction sts) (simp_all add: json_of_step_def)

lemma str_items_strs: "str_items i (map JStr ss) = Inr ss"
  by (induction ss arbitrary: i) simp_all

lemma join_strs_Cons: "join_strs sep (s # rest) = s @ concat (map (\<lambda>t. sep @ t) rest)"
  by (induction rest arbitrary: s) simp_all

lemma join_strs_spaces: "join_strs '' '' ss = joined_with_spaces ss"
  by (cases ss) (simp_all add: joined_with_spaces_def join_strs_Cons)

lemma length_join_strs:
  "length (join_strs sep ss) = sum_list (map length ss) + (length ss - 1) * length sep"
  by (induction sep ss rule: join_strs.induct) simp_all

lemma full_narration_wellformed:
  "full_narration (json_of_steps sts) = Inr (join_strs '' '' (map narration sts))"
proof -
  have "map (\<lambda>st. JStr (narration st)) sts = map JStr (map narration sts)"
    by simp
  then show ?thesis
    by (simp add: full_narration_def json_of_steps_def narrations_wellformed str_join_def
          str_items_strs del: map_map)
qed

text \<open>
  C2. For every step list, of any length from 0, the text the narrator hands to the speech
  service is the narrations in their order, the first as it is and each later one behind
  one space: nothing is reordered, dropped or merged (the length is the sum of the lengths
  plus one separator between neighbours). The speech service is called with exactly this
  text, the voice Bella and the model eleven_multilingual_v1. For the single step of the
  scenario the text is its narration.
\<close>

theorem narration_text_joined:
  "full_narration (json_of_steps sts) = Inr (joined_with_spaces (map narration sts))
   \<and> length (joined_with_spaces (map narration sts))
       = sum_list (map (\<lambda>st. length (narration st)) sts) + (length sts - 1)
   \<and> take (Suc (length (calls w))) (calls (snd (create_narration X (json_of_steps sts) w)))
       = calls w @ [Generate (joined_with_spaces (map narration sts)) ''Bella'' ''eleven_multilingual_v1'']
   \<and> full_narration (json_of_steps scenario) = Inr ''We subtract one from both sides.''"
proof -
  have joined: "full_narration (json_of_steps sts) = Inr (joined_with_spaces (map narration sts))"
    by (simp add: full_narration_wellformed join_strs_spaces)
  have len: "length (joined_with_spaces (map narration sts))
       = sum_list (map (\<lambda>st. length (narration st)) sts) + (length sts - 1)"
    using length_join_strs [of "'' ''" "map narration sts"]
    by (simp add: join_strs_spaces comp_def)
  have call: "take (Suc (length (calls w))) (calls (snd (create_narration X (json_of_steps sts) w)))
       = calls w @ [Generate (joined_with_spaces (map narration sts)) ''Bella'' ''eleven_multilingual_v1'']"
    by (simp add: create_narration_def joined called_def Let_def split: sum.splits prod.splits option.splits)
  have one: "full_narration (json_of_steps scenario) = Inr ''We subtract one from both sides.''"
    by (simp add: full_narration_wellformed scenario_def)
  from joined len call one show ?thesis by blast
qed

theorem narration_text_joined_witness:
  "full_narration (json_of_steps
      [\<lparr>equation = ''x+1=2'', explanation = ''subtract 1'', narration = ''minus one''\<rparr>,
       \<lparr>equation = ''x=1'', explanation = ''done'', narration = ''so x is one''\<rparr>,
       \<lparr>equation = ''x=1'', explanation = ''done'', narration = ''so x is one''\<rparr>])
     = Inr ''minus one so x is one so x is one''
   \<and> full_narration (json_of_steps []) = Inr []"
  using narration_text_joined [of "[\<lparr>equation = ''x+1=2'', explanation = ''subtract 1'', narration = ''minus one''\<rparr>,
       \<lparr>equation = ''x=1'', explanation = ''done'', narration = ''so x is one''\<rparr>,
       \<lparr>equation = ''x=1'', explanation = ''done'', narration = ''so x is one''\<rparr>]"]
    narration_text_joined [of "[]"]
  by (simp add: joined_with_spaces_def)

section \<open>Properties of the pipeline\<close>

lemma create_narration_path:
  "create_narration X steps w = (Inr a, w') \<Longrightarrow> a = ''narration.mp3''"
  by (auto simp: create_narration_def Let_def split: sum.splits prod.splits option.splits)

lemma calls_render: "calls (snd (render X steps w)) = calls w @ [Render steps]"
  by (simp add: render_def called_def split: prod.splits)

lemma calls_create_narration: "\<exists>cs. calls (snd (create_narration X steps w)) = calls w @ cs"
  by (simp add: create_narration_def called_def Let_def split: sum.splits prod.splits option.splits)

lemma calls_run: "calls (snd (run X args w)) = calls w @ [Run args]"
  by (simp add: run_def called_def split: prod.splits)

lemma calls_os_remove: "calls (snd (os_remove p w)) = calls w @ [Remove p]"
  by (simp add: os_remove_def called_def split: option.splits)

lemma calls_generate_explanation:
  "calls (snd (generate_explanation X question w))
     = calls w @ [ChatCompletion ''gpt-4'' [(''user'', prompt_of question)]]"
  by (simp add: generate_explanation_def called_def Let_def split: sum.splits)

lemma create_video_body_success:
  assumes "create_video_body X q w = (Inr p, w')"
  shows "\<exists>steps w1 w2 w3 status w4 w5.
           generate_explanation X q w = (Inr steps, w1)
         \<and> render X steps w1 = (None, w2)
         \<and> create_narration X steps w2 = (Inr ''narration.mp3'', w3)
         \<and> run X (ffmpeg_args ''math_scene.mp4'' ''narration.mp3'' ''final_explanation.mp4'') w3
             = (Inr status, w4)
         \<and> os_remove ''math_scene.mp4'' w4 = (None, w5)
         \<and> os_remove ''narration.mp3'' w5 = (None, w')
         \<and> p = ''final_explanation.mp4''"
proof -
  obtain steps w1 where gen: "generate_explanation X q w = (Inr steps, w1)"
    using assms by (auto simp: create_video_body_def Let_def split: sum.splits prod.splits)
  obtain w2 where ren: "render X steps w1 = (None, w2)"
    using assms gen by (auto simp: create_video_body_def Let_def split: option.splits prod.splits)
  obtain a w3 where nar: "create_narration X steps w2 = (Inr a, w3)"
    using assms gen ren by (auto simp: create_video_body_def Let_def split: sum.splits prod.splits)
  have a: "a = ''narration.mp3''"
    using nar by (rule create_narration_path)
  obtain status w4 where
    mux: "run X (ffmpeg_args ''math_scene.mp4'' ''narration.mp3'' ''final_explanation.mp4'') w3
            = (Inr status, w4)"
    using assms gen ren nar a by (auto simp: create_video_body_def Let_def split: sum.splits prod.splits)
  obtain w5 where r1: "os_remove ''math_scene.mp4'' w4 = (None, w5)"
    using assms gen ren nar a mux
    by (auto simp: create_video_body_def Let_def split: option.splits prod.splits)
  have r2: "os_remove ''narration.mp3'' w5 = (None, w')" and p: "p = ''final_explanation.mp4''"
    using assms gen ren nar a mux r1
    by (auto simp: create_video_body_def Let_def split: option.splits prod.splits)
  from gen ren nar a mux r1 r2 p show ?thesis by blast
qed

lemma os_remove_ok:
  "os_remove p w = (None, w') \<Longrightarrow>
     files w p \<noteq> None \<and> w' = w\<lparr>files := (files w)(p := None), calls := calls w @ [Remove p]\<rparr>"
  by (auto simp: os_remove_def called_def split: option.splits)



text \<open>
  C5. When either of the two keys is absent from the environment, constructing the tutor
  raises the ValueError and leaves the world as it was; \<open>main\<close>, which constructs the tutor
  first, ends with that exception in an unchanged world: nothing was printed, no line was
  read, no file was touched and no call left the program.
\<close>

theorem missing_key_fails_construction:
  assumes "environ w ''OPENAI_API_KEY'' = None \<or> environ w ''ELEVENLABS_API_KEY'' = None"
  shows "init w = (Inl (ValueError ''API keys for OpenAI and ElevenLabs are required''), w)
       \<and> main X w = (Some (ValueError ''API keys for OpenAI and ElevenLabs are required''), w)"
proof -
  have "init w = (Inl (ValueError ''API keys for OpenAI and ElevenLabs are required''), w)"
    using assms by (auto simp: init_def Let_def)
  then show ?thesis
    by (simp add: main_def)
qed

theorem missing_key_fails_construction_witness:
  "main (scripted (Inr [Some ''[]'']) (Inr (JArr [])) None (Inr ''mp3'') (Inr 0))
        (world0\<lparr>environ := [''OPENAI_API_KEY'' \<mapsto> ''sk-1'']\<rparr>)
     = (Some (Exception ''ValueError'' ''API keys for OpenAI and ElevenLabs are required''),
        world0\<lparr>environ := [''OPENAI_API_KEY'' \<mapsto> ''sk-1'']\<rparr>)
   \<and> calls (world0\<lparr>environ := [''OPENAI_API_KEY'' \<mapsto> ''sk-1'']\<rparr>) = []"
proof -
  have absent: "environ (world0\<lparr>environ := [''OPENAI_API_KEY'' \<mapsto> ''sk-1'']\<rparr>) ''OPENAI_API_KEY'' = None
     \<or> environ (world0\<lparr>environ := [''OPENAI_API_KEY'' \<mapsto> ''sk-1'']\<rparr>) ''ELEVENLABS_API_KEY'' = None"
    by simp
  from missing_key_fails_construction [OF absent] show ?thesis
    by (simp add: ValueError_def world0_def)
qed

text \<open>
  C9. When the first choice of the reply has the text \<open>text\<close> and the parser makes the
  value \<open>v\<close> of it, \<open>generate_explanation\<close> returns \<open>v\<close>, whatever its shape, after the one
  call to the language model; and \<open>create_video\<close> hands this very value to the scene next.
\<close>

theorem generate_explanation_returns_parsed:
  assumes "chat_completion X (api_key w) ''gpt-4'' [(''user'', prompt_of question)]
             = Inr (Some text # others)"
      and "json_loads X text = Inr v"
  shows "generate_explanation X question w
           = (Inr v, called (ChatCompletion ''gpt-4'' [(''user'', prompt_of question)]) w)
       \<and> take (length (calls w) + 2) (calls (snd (create_video X question w)))
           = calls w @ [ChatCompletion ''gpt-4'' [(''user'', prompt_of question)], Render v]"
proof -
  let ?w1 = "called (ChatCompletion ''gpt-4'' [(''user'', prompt_of question)]) w"
  have gen: "generate_explanation X question w = (Inr v, ?w1)"
    using assms by (simp add: generate_explanation_def first_content_def loads_def Let_def)
  obtain r w2 where ren: "render X v ?w1 = (r, w2)"
    by (cases "render X v ?w1")
  have c2: "calls w2 = calls w @ [ChatCompletion ''gpt-4'' [(''user'', prompt_of question)], Render v]"
    using calls_render [of X v ?w1] ren by (simp add: called_def)
  have later: "\<exists>cs. calls (snd (create_video X question w)) = calls w2 @ cs"
  proof (cases r)
    case (Some e)
    then show ?thesis
      using gen ren by (simp add: create_video_def create_video_body_def print_def)
  next
    case None
    obtain n w3 where nar: "create_narration X v w2 = (n, w3)"
      by (cases "create_narration X v w2")
    obtain cs3 where c3: "calls w3 = calls w2 @ cs3"
      using calls_create_narration [of X v w2] nar by auto
    show ?thesis
    proof (cases n)
      case (Inl e)
      then show ?thesis
        using gen ren None nar c3 by (simp add: create_video_def create_video_body_def print_def)
    next
      case (Inr a)
      let ?args = "ffmpeg_args ''math_scene.mp4'' a ''final_explanation.mp4''"
      obtain m w4 where mux: "run X ?args w3 = (m, w4)"
        by (cases "run X ?args w3")
      have c4: "calls w4 = calls w2 @ cs3 @ [Run ?args]"
        using calls_run [of X ?args w3] mux c3 by simp
      show ?thesis
      proof (cases m)
        case (Inl e)
        then show ?thesis
          using gen ren None nar Inr mux c4
          by (simp add: create_video_def create_video_body_def print_def)
      next
        case status: (Inr st)
        obtain r1 w5 where rm1: "os_remove ''math_scene.mp4'' w4 = (r1, w5)"
          by (cases "os_remove ''math_scene.mp4'' w4")
        have c5: "calls w5 = calls w2 @ cs3 @ [Run ?args, Remove ''math_scene.mp4'']"
          using calls_os_remove [of "''math_scene.mp4''" w4] rm1 c4 by simp
        obtain r2 w6 where rm2: "os_remove a w5 = (r2, w6)"
          by (cases "os_remove a w5")
        have c6: "calls w6 = calls w2 @ cs3 @ [Run ?args, Remove ''math_scene.mp4'', Remove a]"
          using calls_os_remove [of a w5] rm2 c5 by simp
        show ?thesis
          using gen ren None nar Inr mux status rm1 rm2 c5 c6
          by (cases r1; cases r2) (simp_all add: create_video_def create_video_body_def print_def)
      qed
    qed
  qed
  then obtain cs where "calls (snd (create_video X question w)) = calls w2 @ cs" ..
  with c2 have "take (length (calls w) + 2) (calls (snd (create_video X question w)))
           = calls w @ [ChatCompletion ''gpt-4'' [(''user'', prompt_of question)], Render v]"
    by simp
  with gen show ?thesis by simp
qed

theorem generate_explanation_returns_parsed_witness:
  "fst (generate_explanation (scripted (Inr [Some ''42'']) (Inr (JInt 42)) None (Inr ''mp3'') (Inr 0))
          ''Solve x+1=2'' world0) = Inr (JInt 42)
   \<and> take 2 (calls (snd (create_video (scripted (Inr [Some ''42'']) (Inr (JInt 42)) None (Inr ''mp3'') (Inr 0))
          ''Solve x+1=2'' world0)))
       = [ChatCompletion ''gpt-4'' [(''user'', prompt_of ''Solve x+1=2'')], Render (JInt 42)]"
proof -
  let ?X = "scripted (Inr [Some ''42'']) (Inr (JInt 42)) None (Inr ''mp3'') (Inr 0)"
  have reply: "chat_completion ?X (api_key world0) ''gpt-4'' [(''user'', prompt_of ''Solve x+1=2'')]
                 = Inr (Some ''42'' # [])"
    by (simp add: scripted_def)
  have parsed: "json_loads ?X ''42'' = Inr (JInt 42)"
    by (simp add: scripted_def)
  have none_yet: "calls world0 = []"
    by (simp add: world0_def)
  from generate_explanation_returns_parsed [OF reply parsed] show ?thesis
    by (simp add: none_yet numeral_2_eq_2)
qed

text \<open>
  C6. When the first choice of the reply has a text that the parser rejects with the
  exception \<open>e\<close>, \<open>generate_explanation\<close> raises \<open>e\<close>, \<open>create_video\<close> prints the message and
  returns \<^verbatim>\<open>None\<close>, and the run ended there: the files are as before and the call to the
  language model is the only one made, so nothing was rendered, narrated or muxed.
\<close>

theorem invalid_json_gives_none:
  assumes "chat_completion X (api_key w) ''gpt-4'' [(''user'', prompt_of q)]
             = Inr (Some text # others)"
      and "json_loads X text = Inl e"
  shows "generate_explanation X q w
           = (Inl e, called (ChatCompletion ''gpt-4'' [(''user'', prompt_of q)]) w)
       \<and> create_video X q w
           = (None, print (''Error creating video: '' @ exn_str e)
                      (called (ChatCompletion ''gpt-4'' [(''user'', prompt_of q)]) w))
       \<and> files (snd (create_video X q w)) = files w
       \<and> calls (snd (create_video X q w))
           = calls w @ [ChatCompletion ''gpt-4'' [(''user'', prompt_of q)]]"
proof -
  have gen: "generate_explanation X q w
           = (Inl e, called (ChatCompletion ''gpt-4'' [(''user'', prompt_of q)]) w)"
    using assms by (simp add: generate_explanation_def first_content_def loads_def Let_def)
  then have cv: "create_video X q w
           = (None, print (''Error creating video: '' @ exn_str e)
                      (called (ChatCompletion ''gpt-4'' [(''user'', prompt_of q)]) w))"
    by (simp add: create_video_def create_video_body_def)
  from gen cv show ?thesis
    by (simp add: print_def called_def)
qed

theorem invalid_json_gives_none_witness:
  "fst (create_video
          (scripted (Inr [Some ''Sure! Here are the steps'']) 
             (Inl (Exception ''JSONDecodeError'' ''Expecting value: line 1 column 1 (char 0)''))
             None (Inr ''mp3'') (Inr 0))
          ''Solve x+1=2'' world0) = None
   \<and> stdout (snd (create_video
          (scripted (Inr [Some ''Sure! Here are the steps''])
             (Inl (Exception ''JSONDecodeError'' ''Expecting value: line 1 column 1 (char 0)''))
             None (Inr ''mp3'') (Inr 0))
          ''Solve x+1=2'' world0))
       = [''Error creating video: Expecting value: line 1 column 1 (char 0)'' @ [CHR 10]]
   \<and> files (snd (create_video
          (scripted (Inr [Some ''Sure! Here are the steps''])
             (Inl (Exception ''JSONDecodeError'' ''Expecting value: line 1 column 1 (char 0)''))
             None (Inr ''mp3'') (Inr 0))
          ''Solve x+1=2'' world0)) = Map.empty"
proof -
  let ?e = "Exception ''JSONDecodeError'' ''Expecting value: line 1 column 1 (char 0)''"
  let ?X = "scripted (Inr [Some ''Sure! Here are the steps'']) (Inl ?e) None (Inr ''mp3'') (Inr 0)"
  have reply: "chat_completion ?X (api_key world0) ''gpt-4'' [(''user'', prompt_of ''Solve x+1=2'')]
                 = Inr (Some ''Sure! Here are the steps'' # [])"
    by (simp add: scripted_def)
  have rejected: "json_loads ?X ''Sure! Here are the steps'' = Inl ?e"
    by (simp add: scripted_def)
  from invalid_json_gives_none [OF reply rejected] show ?thesis
    by (simp add: world0_def print_def called_def)
qed

text \<open>
  C10. Whatever the question, the world and the externals, \<open>create_video\<close> returns
  \<^verbatim>\<open>None\<close> or the fixed name of the output file.
\<close>

theorem create_video_result:
  "fst (create_video X q w) = None \<or> fst (create_video X q w) = Some ''final_explanation.mp4''"
proof (cases "create_video_body X q w")
  case (Pair r w')
  show ?thesis
  proof (cases r)
    case (Inl e)
    with Pair show ?thesis by (simp add: create_video_def)
  next
    case (Inr p)
    with Pair create_video_body_success [of X q w p w'] show ?thesis
      by (auto simp: create_video_def)
  qed
qed

lemma create_video_none_iff:
  "fst (create_video X q w) = None \<longleftrightarrow> (\<exists>e w'. create_video_body X q w = (Inl e, w'))"
  by (cases "create_video_body X q w") (auto simp: create_video_def split: sum.splits)




lemma missing_video_gives_none:
  assumes gen: "generate_explanation X q w = (Inr steps, w1)"
      and ren: "render X steps w1 = (None, w2)"
      and nar: "create_narration X steps w2 = (Inr a, w3)"
      and mux: "run X (ffmpeg_args ''math_scene.mp4'' a ''final_explanation.mp4'') w3 = (Inr status, w4)"
      and absent: "files w4 ''math_scene.mp4'' = None"
  shows "fst (create_video X q w) = None"
  using assms
  by (simp add: create_video_def create_video_body_def os_remove_def Let_def)



text \<open>
  C7. When \<open>create_video\<close> returns a path, so that every step and the cleanup ended
  normally: the path is the name of the output file; the silent video and the narration
  audio are no longer among the files; and the files are those the mux tool left, less
  these two, so the muxed output is there as the tool wrote it.
\<close>

theorem success_removes_intermediates:
  assumes "create_video X q w = (Some p, w')"
  shows "p = ''final_explanation.mp4''
       \<and> files w' ''math_scene.mp4'' = None
       \<and> files w' ''narration.mp3'' = None
       \<and> (\<exists>steps w1 w2 w3 status w4.
             generate_explanation X q w = (Inr steps, w1)
           \<and> render X steps w1 = (None, w2)
           \<and> create_narration X steps w2 = (Inr ''narration.mp3'', w3)
           \<and> run X (ffmpeg_args ''math_scene.mp4'' ''narration.mp3'' ''final_explanation.mp4'') w3
               = (Inr status, w4)
           \<and> files w' = (files w4)(''math_scene.mp4'' := None, ''narration.mp3'' := None)
           \<and> files w' ''final_explanation.mp4'' = files w4 ''final_explanation.mp4'')"
proof -
  have body: "create_video_body X q w = (Inr p, w')"
    using assms
    by (cases "create_video_body X q w") (auto simp: create_video_def split: sum.splits)
  from create_video_body_success [OF body]
  obtain steps w1 w2 w3 status w4 w5 where
        gen: "generate_explanation X q w = (Inr steps, w1)"
    and ren: "render X steps w1 = (None, w2)"
    and nar: "create_narration X steps w2 = (Inr ''narration.mp3'', w3)"
    and mux: "run X (ffmpeg_args ''math_scene.mp4'' ''narration.mp3'' ''final_explanation.mp4'') w3
               = (Inr status, w4)"
    and r1: "os_remove ''math_scene.mp4'' w4 = (None, w5)"
    and r2: "os_remove ''narration.mp3'' w5 = (None, w')"
    and p: "p = ''final_explanation.mp4''"
    by blast
  have w5: "w5 = w4\<lparr>files := (files w4)(''math_scene.mp4'' := None),
                    calls := calls w4 @ [Remove ''math_scene.mp4'']\<rparr>"
    using os_remove_ok [OF r1] by simp
  have w': "w' = w5\<lparr>files := (files w5)(''narration.mp3'' := None),
                    calls := calls w5 @ [Remove ''narration.mp3'']\<rparr>"
    using os_remove_ok [OF r2] by simp
  have fs: "files w' = (files w4)(''math_scene.mp4'' := None, ''narration.mp3'' := None)"
    by (simp add: w' w5)
  have kept: "files w' ''final_explanation.mp4'' = files w4 ''final_explanation.mp4''"
    by (simp add: fs)
  have v: "files w' ''math_scene.mp4'' = None" and n: "files w' ''narration.mp3'' = None"
    by (simp_all add: fs)
  from p v n gen ren nar mux fs kept show ?thesis
    by blast
qed

theorem success_removes_intermediates_witness:
  "fst (create_video
          (scripted (Inr [Some ''[...]'']) (Inr (json_of_steps scenario)) None (Inr ''mp3'') (Inr 0))
          ''Solve x+1=2'' world0) = Some ''final_explanation.mp4''
   \<and> files (snd (create_video
          (scripted (Inr [Some ''[...]'']) (Inr (json_of_steps scenario)) None (Inr ''mp3'') (Inr 0))
          ''Solve x+1=2'' world0)) = [''final_explanation.mp4'' \<mapsto> ''muxed'']"
proof -
  let ?X = "scripted (Inr [Some ''[...]'']) (Inr (json_of_steps scenario)) None (Inr ''mp3'') (Inr 0)"
  let ?q = "''Solve x+1=2''"
  have returned: "create_video ?X ?q world0 = (Some ''final_explanation.mp4'', snd (create_video ?X ?q world0))"
    using construct_wellformed(1) [of scenario]
    by (auto simp: create_video_def create_video_body_def run_def create_narration_def
          full_narration_wellformed render_def os_remove_def ffmpeg_args_def
          generate_explanation_def first_content_def loads_def called_def scripted_def
          world0_def Let_def split: prod.splits)
  have fs: "files (snd (create_video ?X ?q world0)) = [''final_explanation.mp4'' \<mapsto> ''muxed'']"
    using construct_wellformed(1) [of scenario]
    by (auto simp: create_video_def create_video_body_def run_def create_narration_def
          full_narration_wellformed render_def os_remove_def ffmpeg_args_def
          generate_explanation_def first_content_def loads_def called_def scripted_def
          world0_def Let_def fun_upd_def split: prod.splits)
  have path: "fst (create_video ?X ?q world0) = Some ''final_explanation.mp4''"
    using returned by (metis fst_conv)
  from success_removes_intermediates [OF returned] path fs show ?thesis
    by simp
qed

end
